theory Spec2Isabelle
  imports Main "HOL-Library.Word" "HOL-Library.Char_ord" "HOL-Library.List_Lexorder"
begin

section \<open>Shared data: errors, URLs, query values\<close>

text \<open>
  Go's \<open>error\<close> is an interface. The model keeps one constructor for
  \<open>objectstorage.InvalidHTTPMethodError\<close> (errors.go), one for each kind of the
  error taxonomy of the HTTP layer, and \<open>OtherError\<close> for the errors of third-party
  collaborators (the storage client, the request builder).
\<close>

datatype error =
    InvalidHTTPMethodError string
  | ValidationError string
  | NotFoundError string
  | ConflictError string
  | ServerError string
  | DecodingError string
  | TransportError string
  | OtherError string
  | Panic string

text \<open>
  Go's \<open>int\<close> (on a 64-bit platform) and \<open>time.Duration\<close> (an \<open>int64\<close>) are
  64-bit two's complement integers.
\<close>

type_synonym go_int = "64 word"
type_synonym Duration = "64 word"

text \<open>
  \<open>url.Values\<close> is a \<open>map[string][]string\<close>: a finite map from keys to the
  list of values added under that key, kept here as an association list with distinct
  keys.
\<close>

type_synonym Values = "(string \<times> string list) list"

record URL =
  Scheme :: string
  Host :: string
  Path :: string
  RawQuery :: string

definition MethodGet :: string where "MethodGet = ''GET''"
definition MethodHead :: string where "MethodHead = ''HEAD''"
definition MethodPut :: string where "MethodPut = ''PUT''"
definition MethodPost :: string where "MethodPost = ''POST''"

section \<open>objectstorage: presigned URLs\<close>

text \<open>
  The three presign operations of \<open>minioClientInterface\<close> (minio_interface.go). The
  client is a collaborator with a state of its own (\<open>'m\<close>); every operation returns
  Go's pair \<open>(*url.URL, error)\<close> and the client's next state.
\<close>

record ('m, 'ctx) minioClientInterface =
  PresignedGetObject ::
    "'m \<Rightarrow> 'ctx \<Rightarrow> string \<Rightarrow> string \<Rightarrow> Duration \<Rightarrow> Values \<Rightarrow> (URL option \<times> error option) \<times> 'm"
  PresignedHeadObject ::
    "'m \<Rightarrow> 'ctx \<Rightarrow> string \<Rightarrow> string \<Rightarrow> Duration \<Rightarrow> Values \<Rightarrow> (URL option \<times> error option) \<times> 'm"
  PresignedPutObject ::
    "'m \<Rightarrow> 'ctx \<Rightarrow> string \<Rightarrow> string \<Rightarrow> Duration \<Rightarrow> (URL option \<times> error option) \<times> 'm"

text \<open>The calls a service issues on the storage client, with their arguments.\<close>

datatype 'ctx minio_call =
    CallPresignedGetObject 'ctx string string Duration Values
  | CallPresignedHeadObject 'ctx string string Duration Values
  | CallPresignedPutObject 'ctx string string Duration

text \<open>The storage side of the world: the client's state and the calls issued so far.\<close>

record ('m, 'ctx) storage =
  client_state :: 'm
  calls :: "'ctx minio_call list"

definition call_PresignedGetObject ::
  "('m, 'ctx) minioClientInterface \<Rightarrow> ('m, 'ctx) storage \<Rightarrow> 'ctx \<Rightarrow> string \<Rightarrow> string \<Rightarrow> Duration
     \<Rightarrow> Values \<Rightarrow> (URL option \<times> error option) \<times> ('m, 'ctx) storage" where
  "call_PresignedGetObject mc w ctx bucketName objectName expiry reqParams =
     (case PresignedGetObject mc (client_state w) ctx bucketName objectName expiry reqParams of
        (r, m') \<Rightarrow>
          (r, \<lparr>client_state = m',
               calls = calls w @ [CallPresignedGetObject ctx bucketName objectName expiry reqParams]\<rparr>))"

definition call_PresignedHeadObject ::
  "('m, 'ctx) minioClientInterface \<Rightarrow> ('m, 'ctx) storage \<Rightarrow> 'ctx \<Rightarrow> string \<Rightarrow> string \<Rightarrow> Duration
     \<Rightarrow> Values \<Rightarrow> (URL option \<times> error option) \<times> ('m, 'ctx) storage" where
  "call_PresignedHeadObject mc w ctx bucketName objectName expiry reqParams =
     (case PresignedHeadObject mc (client_state w) ctx bucketName objectName expiry reqParams of
        (r, m') \<Rightarrow>
          (r, \<lparr>client_state = m',
               calls = calls w @ [CallPresignedHeadObject ctx bucketName objectName expiry reqParams]\<rparr>))"

definition call_PresignedPutObject ::
  "('m, 'ctx) minioClientInterface \<Rightarrow> ('m, 'ctx) storage \<Rightarrow> 'ctx \<Rightarrow> string \<Rightarrow> string \<Rightarrow> Duration
     \<Rightarrow> (URL option \<times> error option) \<times> ('m, 'ctx) storage" where
  "call_PresignedPutObject mc w ctx bucketName objectName expiry =
     (case PresignedPutObject mc (client_state w) ctx bucketName objectName expiry of
        (r, m') \<Rightarrow>
          (r, \<lparr>client_state = m',
               calls = calls w @ [CallPresignedPutObject ctx bucketName objectName expiry]\<rparr>))"

text \<open>
  \<open>presignedService.GeneratePresignedURL\<close> (presigned.go): a switch on the method
  string. The service's client is the one \<open>Presigner()\<close> stored, so it is not nil.
\<close>

definition GeneratePresignedURL ::
  "('m, 'ctx) minioClientInterface \<Rightarrow> ('m, 'ctx) storage \<Rightarrow> 'ctx \<Rightarrow> string \<Rightarrow> string \<Rightarrow> string
     \<Rightarrow> Duration \<Rightarrow> Values \<Rightarrow> (URL option \<times> error option) \<times> ('m, 'ctx) storage" where
  "GeneratePresignedURL mc w ctx method bucketName objectKey expiry reqParams =
     (if method = MethodGet then
        call_PresignedGetObject mc w ctx bucketName objectKey expiry reqParams
      else if method = MethodHead then
        call_PresignedHeadObject mc w ctx bucketName objectKey expiry reqParams
      else if method = MethodPut then
        call_PresignedPutObject mc w ctx bucketName objectKey expiry
      else ((None, Some (InvalidHTTPMethodError method)), w))"

text \<open>A storage client for the examples: it signs nothing and counts its calls.\<close>

definition counting_client :: "(nat, unit) minioClientInterface" where
  "counting_client =
     \<lparr>PresignedGetObject = (\<lambda>m ctx b k e ps.
        ((Some \<lparr>Scheme = ''https'', Host = ''get'', Path = b @ ''/'' @ k, RawQuery = []\<rparr>, None), Suc m)),
      PresignedHeadObject = (\<lambda>m ctx b k e ps.
        ((Some \<lparr>Scheme = ''https'', Host = ''head'', Path = b @ ''/'' @ k, RawQuery = []\<rparr>, None), Suc m)),
      PresignedPutObject = (\<lambda>m ctx b k e.
        ((Some \<lparr>Scheme = ''https'', Host = ''put'', Path = b @ ''/'' @ k, RawQuery = []\<rparr>, None), Suc m))\<rparr>"

section \<open>compute: the HTTP layer\<close>

text \<open>
  The named string types and the request struct of custom_images.go.
\<close>

type_synonym Platform = string
type_synonym Architecture = string
type_synonym License = string

definition PlatformLinux :: Platform where "PlatformLinux = ''linux''"
definition PlatformWindows :: Platform where "PlatformWindows = ''windows''"
definition ArchitectureX86_64 :: Architecture where "ArchitectureX86_64 = ''x86/64''"
definition LicenseLicensed :: License where "LicenseLicensed = ''licensed''"
definition LicenseUnlicensed :: License where "LicenseUnlicensed = ''unlicensed''"

record MinimumRequirements =
  VCPU :: go_int
  RAM :: go_int
  Disk :: go_int

record CreateCustomImageRequest =
  Name :: string
  Platform :: Platform
  Architecture :: Architecture
  License :: License
  URL :: string
  Requirements :: "MinimumRequirements option"
  Version :: "string option"
  Description :: "string option"
  UEFI :: "bool option"

text \<open>
  An outgoing request: method, URL, the context it was built with, and the value handed
  to the request builder as its body (\<open>nil\<close> for a listing, the create request for
  \<open>Create\<close>).
\<close>

record 'ctx Request =
  Method :: string
  Url :: URL
  Ctx :: 'ctx
  Body :: "CreateCustomImageRequest option"

record Response =
  StatusCode :: nat
  RespBody :: "string option"

text \<open>
  Modelled from the spec: \<open>client.Config\<close> is declared in a package that is not
  among the sources. The model keeps what the HTTP layer of the spec needs: the base URL,
  the injected transport (the HTTP client, a collaborator with a state of its own,
  \<open>'s\<close>, that answers a request with a response or fails), and the cases in which
  building a request fails.
\<close>

record ('s, 'ctx) Config =
  BaseURL :: URL
  HTTPClient :: "'s \<Rightarrow> 'ctx Request \<Rightarrow> (error + Response) \<times> 's"
  build_error :: "string \<Rightarrow> string \<Rightarrow> error option"

text \<open>The compute side of the world: the server's state and the requests sent so far.\<close>

record ('s, 'ctx) world =
  server :: 's
  sent :: "'ctx Request list"

text \<open>
  Modelled from the spec: \<open>internal/http.NewRequest\<close> is not among the sources. The
  spec's Request Builder "constructs an outgoing HTTP request from a base path, a
  relative path, and an optional body": the URL is the base URL with the path appended
  and no query. The spec does not say when building fails; that is the configuration's
  \<open>build_error\<close>.
\<close>

definition NewRequest ::
  "('s, 'ctx) Config \<Rightarrow> 'ctx \<Rightarrow> string \<Rightarrow> string \<Rightarrow> CreateCustomImageRequest option
     \<Rightarrow> error + 'ctx Request" where
  "NewRequest cfg ctx method path body =
     (case build_error cfg method path of
        Some err \<Rightarrow> Inl err
      | None \<Rightarrow>
          Inr \<lparr>Method = method,
               Url = (BaseURL cfg)\<lparr>Path := Path (BaseURL cfg) @ path, RawQuery := []\<rparr>,
               Ctx = ctx,
               Body = body\<rparr>)"

text \<open>
  Modelled from the spec: the typed error of a non-2xx response, "selected by status
  code family (400 validation, 404 not-found, 409 conflict, 5xx server)", retaining the
  raw body. The spec names no kind for the statuses outside these families; the model
  keeps them as \<open>OtherError\<close>.
\<close>

definition error_of_status :: "nat \<Rightarrow> string \<Rightarrow> error" where
  "error_of_status code body =
     (if code = 404 then NotFoundError body
      else if code = 409 then ConflictError body
      else if 400 \<le> code \<and> code < 500 then ValidationError body
      else if 500 \<le> code \<and> code < 600 then ServerError body
      else OtherError body)"

text \<open>
  Modelled from the spec: \<open>internal/http.Do\<close> is not among the sources. The spec's
  Response Decoder executes the request through the injected transport; an empty or
  absent body where a body was required is a \<open>DecodingError\<close> regardless of the status
  code; on a status in [200,300) the body is decoded as the target type, a decode
  failure being a \<open>DecodingError\<close>; any other status is a typed error. The JSON decoder
  of the target type is the parameter \<open>decode\<close>.
\<close>

definition Do ::
  "('s, 'ctx) Config \<Rightarrow> (string \<Rightarrow> 'a option) \<Rightarrow> ('s, 'ctx) world \<Rightarrow> 'ctx Request
     \<Rightarrow> (error + 'a) \<times> ('s, 'ctx) world" where
  "Do cfg decode w req =
     (case HTTPClient cfg (server w) req of
        (r, s') \<Rightarrow>
          (case r of
             Inl err \<Rightarrow> Inl err
           | Inr resp \<Rightarrow>
               (case RespBody resp of
                  None \<Rightarrow> Inl (DecodingError [])
                | Some b \<Rightarrow>
                    if b = [] then Inl (DecodingError [])
                    else if 200 \<le> StatusCode resp \<and> StatusCode resp < 300 then
                      (case decode b of
                         None \<Rightarrow> Inl (DecodingError b)
                       | Some v \<Rightarrow> Inr v)
                    else Inl (error_of_status (StatusCode resp) b)),
           \<lparr>server = s', sent = sent w @ [req]\<rparr>))"

text \<open>
  Modelled from the spec: \<open>internal/http.ExecuteSimpleRequestWithRespBody\<close> is not
  among the sources. It is the spec's "one operation = one HTTP call": it builds the
  request with the given builder, executes it, and returns the decoded body or the
  error. Every caller in the modelled code passes \<open>nil\<close> query parameters.
\<close>

definition ExecuteSimpleRequestWithRespBody ::
  "('ctx \<Rightarrow> string \<Rightarrow> string \<Rightarrow> CreateCustomImageRequest option \<Rightarrow> error + 'ctx Request)
     \<Rightarrow> ('s, 'ctx) Config \<Rightarrow> (string \<Rightarrow> 'a option) \<Rightarrow> ('s, 'ctx) world \<Rightarrow> 'ctx \<Rightarrow> string
     \<Rightarrow> string \<Rightarrow> CreateCustomImageRequest option \<Rightarrow> (error + 'a) \<times> ('s, 'ctx) world" where
  "ExecuteSimpleRequestWithRespBody newReq cfg decode w ctx method path body =
     (case newReq ctx method path body of
        Inl err \<Rightarrow> (Inl err, w)
      | Inr req \<Rightarrow> Do cfg decode w req)"

text \<open>\<open>VirtualMachineClient.newRequest\<close> (client.go).\<close>

definition DefaultBasePath :: string where
  "DefaultBasePath = ''/compute''"

definition newRequest ::
  "('s, 'ctx) Config \<Rightarrow> 'ctx \<Rightarrow> string \<Rightarrow> string \<Rightarrow> CreateCustomImageRequest option
     \<Rightarrow> error + 'ctx Request" where
  "newRequest cfg ctx method path body = NewRequest cfg ctx method (DefaultBasePath @ path) body"

section \<open>net/url and strconv\<close>

text \<open>\<open>strconv.Itoa\<close>: the decimal string of a signed integer.\<close>

definition digit_char :: "nat \<Rightarrow> char" where
  "digit_char d = ''0123456789'' ! d"

fun digits :: "nat \<Rightarrow> string" where
  "digits n = (if n < 10 then [digit_char n] else digits (n div 10) @ [digit_char (n mod 10)])"

declare digits.simps [simp del]

definition Itoa :: "go_int \<Rightarrow> string" where
  "Itoa i = (if sint i < 0 then CHR ''-'' # digits (nat (- sint i)) else digits (nat (sint i)))"

text \<open>
  \<open>url.QueryEscape\<close>: letters, digits and \<open>-_.~\<close> are kept, a space becomes
  \<open>+\<close>, every other byte becomes \<open>%XX\<close> in upper-case hexadecimal.
\<close>

definition unreserved :: "char \<Rightarrow> bool" where
  "unreserved c =
     ((CHR ''a'' \<le> c \<and> c \<le> CHR ''z'') \<or> (CHR ''A'' \<le> c \<and> c \<le> CHR ''Z'')
      \<or> (CHR ''0'' \<le> c \<and> c \<le> CHR ''9'')
      \<or> c = CHR ''-'' \<or> c = CHR ''_'' \<or> c = CHR ''.'' \<or> c = CHR ''~'')"

definition upperhex :: "nat \<Rightarrow> char" where
  "upperhex d = ''0123456789ABCDEF'' ! d"

definition escape_byte :: "char \<Rightarrow> string" where
  "escape_byte c =
     (if unreserved c then [c]
      else if c = CHR '' '' then ''+''
      else [CHR ''%'', upperhex (of_char c div 16), upperhex (of_char c mod 16)])"

definition QueryEscape :: "string \<Rightarrow> string" where
  "QueryEscape s = concat (map escape_byte s)"

text \<open>
  \<open>url.QueryUnescape\<close>: \<open>+\<close> is a space, \<open>%XX\<close> is the byte with that
  hexadecimal code; a \<open>%\<close> not followed by two hexadecimal digits is an error.
\<close>

definition unhex :: "char \<Rightarrow> nat option" where
  "unhex c =
     (if CHR ''0'' \<le> c \<and> c \<le> CHR ''9'' then Some (of_char c - 48)
      else if CHR ''a'' \<le> c \<and> c \<le> CHR ''f'' then Some (of_char c - 97 + 10)
      else if CHR ''A'' \<le> c \<and> c \<le> CHR ''F'' then Some (of_char c - 65 + 10)
      else None)"

fun QueryUnescape :: "string \<Rightarrow> string option" where
  "QueryUnescape [] = Some []"
| "QueryUnescape (c # cs) =
     (if c = CHR ''%'' then
        (case cs of
           h # l # rest \<Rightarrow>
             (case (unhex h, unhex l) of
                (Some a, Some b) \<Rightarrow> map_option ((#) (char_of (16 * a + b))) (QueryUnescape rest)
              | _ \<Rightarrow> None)
         | _ \<Rightarrow> None)
      else if c = CHR ''+'' then map_option ((#) CHR '' '') (QueryUnescape cs)
      else map_option ((#) c) (QueryUnescape cs))"

text \<open>\<open>strings.Cut\<close> at a byte, and the split of a string at every such byte.\<close>

fun Cut :: "char \<Rightarrow> string \<Rightarrow> string \<times> string" where
  "Cut sep [] = ([], [])"
| "Cut sep (c # cs) =
     (if c = sep then ([], cs) else (case Cut sep cs of (a, b) \<Rightarrow> (c # a, b)))"

fun segments :: "char \<Rightarrow> string \<Rightarrow> string \<Rightarrow> string list" where
  "segments sep acc [] = [rev acc]"
| "segments sep acc (c # cs) =
     (if c = sep then rev acc # segments sep [] cs else segments sep (c # acc) cs)"

text \<open>\<open>Values.Add\<close>: append the value to the list stored under the key.\<close>

fun Add :: "Values \<Rightarrow> string \<Rightarrow> string \<Rightarrow> Values" where
  "Add [] key val = [(key, [val])]"
| "Add ((k, vs) # q) key val =
     (if k = key then (k, vs @ [val]) # q else (k, vs) # Add q key val)"

text \<open>
  \<open>url.ParseQuery\<close> as \<open>URL.Query()\<close> uses it, that is with malformed pairs
  dropped: the query is split at \<open>&\<close>; a segment with a semicolon, an empty segment
  and a segment whose key or value does not unescape are skipped; the others are added.
\<close>

definition parse_segment :: "Values \<Rightarrow> string \<Rightarrow> Values" where
  "parse_segment m seg =
     (if CHR '';'' \<in> set seg \<or> seg = [] then m
      else (case Cut CHR ''='' seg of
              (key, val) \<Rightarrow>
                (case QueryUnescape key of
                   None \<Rightarrow> m
                 | Some key' \<Rightarrow>
                     (case QueryUnescape val of
                        None \<Rightarrow> m
                      | Some val' \<Rightarrow> Add m key' val'))))"

definition Query :: "URL \<Rightarrow> Values" where
  "Query u = foldl parse_segment [] (segments CHR ''&'' [] (RawQuery u))"

text \<open>
  \<open>Values.Encode\<close>: the keys in sorted order, each value of a key as
  \<open>key=value\<close> with both sides escaped, the pairs joined by \<open>&\<close>.
\<close>

fun join_amp :: "string list \<Rightarrow> string" where
  "join_amp [] = []"
| "join_amp [x] = x"
| "join_amp (x # y # ys) = x @ ''&'' @ join_amp (y # ys)"

definition Encode :: "Values \<Rightarrow> string" where
  "Encode v =
     join_amp (concat (map (\<lambda>(k, vs). map (\<lambda>val. QueryEscape k @ ''='' @ QueryEscape val) vs)
                          (sort_key fst v)))"

section \<open>compute: images\<close>

text \<open>
  The structs of images.go. A Go slice is a list, the nil slice being the empty list; a
  pointer field is an option.
\<close>

type_synonym ImageStatus = string

record Image =
  ID :: string
  Name :: string
  Status :: ImageStatus
  Version :: "string option"
  Platform :: "string option"
  ReleaseAt :: "string option"
  EndStandardSupportAt :: "string option"
  EndLifeAt :: "string option"
  MinimumRequirements :: MinimumRequirements
  Labels :: "string list option"
  AvailabilityZones :: "string list option"

text \<open>
  Modelled from the spec: the \<open>Meta\<close> struct is declared in a file that is not among
  the sources. The spec's list envelope is
  \<open>{"meta":{"page":{"offset","limit","count","total"}}, ...}\<close>.
\<close>

record Page =
  page_offset :: go_int
  page_limit :: go_int
  page_count :: go_int
  page_total :: go_int

record Meta =
  Page :: Page

record ImageList =
  Meta :: Meta
  Images :: "Image list"

record ImageListOptions =
  Limit :: "go_int option"
  Offset :: "go_int option"
  Sort :: "string option"
  AvailabilityZone :: "string option"

record ImageFilterOptions =
  Sort :: "string option"
  AvailabilityZone :: "string option"

text \<open>
  \<open>imageService.List\<close> (images.go). The four \<open>if\<close> statements that fill the query
  are \<open>List_query\<close>; a Go pair \<open>(*ImageList, error)\<close> is a pair of options.
\<close>

definition List_query :: "Values \<Rightarrow> ImageListOptions \<Rightarrow> Values" where
  "List_query q0 opts =
     (let q = (case Limit opts of None \<Rightarrow> q0 | Some l \<Rightarrow> Add q0 ''_limit'' (Itoa l));
          q = (case Offset opts of None \<Rightarrow> q | Some off \<Rightarrow> Add q ''_offset'' (Itoa off));
          q = (case ImageListOptions.Sort opts of None \<Rightarrow> q | Some srt \<Rightarrow> Add q ''_sort'' srt);
          q = (case ImageListOptions.AvailabilityZone opts of
                 None \<Rightarrow> q
               | Some az \<Rightarrow> Add q ''availability-zone'' az)
      in q)"

definition List ::
  "('s, 'ctx) Config \<Rightarrow> (string \<Rightarrow> ImageList option) \<Rightarrow> ('s, 'ctx) world \<Rightarrow> 'ctx
     \<Rightarrow> ImageListOptions \<Rightarrow> (ImageList option \<times> error option) \<times> ('s, 'ctx) world" where
  "List cfg decode w ctx opts =
     (case newRequest cfg ctx MethodGet ''/v1/images'' None of
        Inl err \<Rightarrow> ((None, Some err), w)
      | Inr req \<Rightarrow>
          (let q = List_query (Query (Url req)) opts;
               req = req\<lparr>Url := (Url req)\<lparr>RawQuery := Encode q\<rparr>\<rparr>
           in case Do cfg decode w req of
                (Inl err, w') \<Rightarrow> ((None, Some err), w')
              | (Inr response, w') \<Rightarrow> ((Some response, None), w')))"

text \<open>
  \<open>imageService.ListAll\<close> (images.go). The \<open>for\<close> loop has no bound of its own, so
  it is a partial function: \<open>None\<close> is a run that never returns. The result is Go's
  pair \<open>([]Image, error)\<close>. Reading \<open>response.Images\<close> of a nil response with a
  nil error would be a nil-pointer panic; \<open>List\<close> never returns that pair.
\<close>

definition limit :: go_int where
  "limit = 50"

partial_function (option) ListAll_loop ::
  "('s, 'ctx) Config \<Rightarrow> (string \<Rightarrow> ImageList option) \<Rightarrow> 'ctx \<Rightarrow> ImageFilterOptions
     \<Rightarrow> ('s, 'ctx) world \<Rightarrow> go_int \<Rightarrow> Image list
     \<Rightarrow> ((Image list \<times> error option) \<times> ('s, 'ctx) world) option" where
  "ListAll_loop cfg decode ctx opts w offset allImages =
     (let currentOffset = offset;
          currentLimit = limit;
          listOpts = \<lparr>Limit = Some currentLimit, Offset = Some currentOffset,
                      Sort = ImageFilterOptions.Sort opts,
                      AvailabilityZone = ImageFilterOptions.AvailabilityZone opts\<rparr>
      in case List cfg decode w ctx listOpts of
           ((response, Some err), w') \<Rightarrow> Some (([], Some err), w')
         | ((None, None), w') \<Rightarrow> Some (([], Some (Panic ''nil pointer dereference'')), w')
         | ((Some response, None), w') \<Rightarrow>
             (let allImages = allImages @ Images response
              in if int (length (Images response)) < sint limit then Some ((allImages, None), w')
                 else ListAll_loop cfg decode ctx opts w' (offset + limit) allImages))"

definition ListAll ::
  "('s, 'ctx) Config \<Rightarrow> (string \<Rightarrow> ImageList option) \<Rightarrow> ('s, 'ctx) world \<Rightarrow> 'ctx
     \<Rightarrow> ImageFilterOptions \<Rightarrow> ((Image list \<times> error option) \<times> ('s, 'ctx) world) option" where
  "ListAll cfg decode w ctx opts = ListAll_loop cfg decode ctx opts w 0 []"

section \<open>The pages of a listing\<close>

text \<open>
  What the server answers along a run of \<open>ListAll\<close> that starts in world \<open>w\<close> at
  offset \<open>off\<close>: \<open>page_opts\<close> are the options of the single-page call at an offset,
  \<open>world_at \<dots> n\<close> is the world after the first \<open>n\<close> single-page calls, and
  \<open>page_at \<dots> n\<close> is Go's pair returned by the next one (page \<open>n\<close>, counted from
  0).
\<close>

definition page_opts :: "ImageFilterOptions \<Rightarrow> go_int \<Rightarrow> ImageListOptions" where
  "page_opts opts off =
     \<lparr>Limit = Some limit, Offset = Some off,
      Sort = ImageFilterOptions.Sort opts,
      AvailabilityZone = ImageFilterOptions.AvailabilityZone opts\<rparr>"

fun world_at ::
  "('s, 'ctx) Config \<Rightarrow> (string \<Rightarrow> ImageList option) \<Rightarrow> 'ctx \<Rightarrow> ImageFilterOptions
     \<Rightarrow> ('s, 'ctx) world \<Rightarrow> go_int \<Rightarrow> nat \<Rightarrow> ('s, 'ctx) world" where
  "world_at cfg decode ctx opts w off 0 = w"
| "world_at cfg decode ctx opts w off (Suc n) =
     world_at cfg decode ctx opts (snd (List cfg decode w ctx (page_opts opts off))) (off + limit) n"

definition page_at ::
  "('s, 'ctx) Config \<Rightarrow> (string \<Rightarrow> ImageList option) \<Rightarrow> 'ctx \<Rightarrow> ImageFilterOptions
     \<Rightarrow> ('s, 'ctx) world \<Rightarrow> go_int \<Rightarrow> nat \<Rightarrow> ImageList option \<times> error option" where
  "page_at cfg decode ctx opts w off n =
     fst (List cfg decode (world_at cfg decode ctx opts w off n) ctx
            (page_opts opts (off + of_nat n * limit)))"

text \<open>
  A page is full when it succeeds with exactly 50 records, short when it succeeds with
  fewer, and failed when its error is not nil; \<open>page_more\<close> is the loop's own test for
  going on (a success that is not short).
\<close>

definition page_full :: "ImageList option \<times> error option \<Rightarrow> bool" where
  "page_full r = (case r of (Some resp, None) \<Rightarrow> length (Images resp) = 50 | _ \<Rightarrow> False)"

definition page_short :: "ImageList option \<times> error option \<Rightarrow> bool" where
  "page_short r = (case r of (Some resp, None) \<Rightarrow> length (Images resp) < 50 | _ \<Rightarrow> False)"

definition page_more :: "ImageList option \<times> error option \<Rightarrow> bool" where
  "page_more r = (case r of (Some resp, None) \<Rightarrow> 50 \<le> length (Images resp) | _ \<Rightarrow> False)"

definition page_failed :: "ImageList option \<times> error option \<Rightarrow> bool" where
  "page_failed r = (snd r \<noteq> None)"

definition page_images :: "ImageList option \<times> error option \<Rightarrow> Image list" where
  "page_images r = (case r of (Some resp, None) \<Rightarrow> Images resp | _ \<Rightarrow> [])"

text \<open>
  The records collected from the first \<open>n\<close> pages of a listing that starts at
  offset 0, in page order.
\<close>

definition collected ::
  "('s, 'ctx) Config \<Rightarrow> (string \<Rightarrow> ImageList option) \<Rightarrow> 'ctx \<Rightarrow> ImageFilterOptions
     \<Rightarrow> ('s, 'ctx) world \<Rightarrow> nat \<Rightarrow> Image list" where
  "collected cfg decode ctx opts w n =
     concat (map (\<lambda>i. page_images (page_at cfg decode ctx opts w 0 i)) [0..<n])"

text \<open>
  The request for page \<open>i\<close> of a listing as the specification describes it: limit 50,
  offset \<open>50 * i\<close>, and the caller's sort and availability zone.
\<close>

definition page_request ::
  "('s, 'ctx) Config \<Rightarrow> 'ctx \<Rightarrow> ImageFilterOptions \<Rightarrow> nat \<Rightarrow> 'ctx Request" where
  "page_request cfg ctx opts i =
     \<lparr>Method = ''GET'',
      Url = (BaseURL cfg)
        \<lparr>Path := Path (BaseURL cfg) @ ''/compute/v1/images'',
         RawQuery := ''_limit=50&_offset='' @ Itoa (of_nat (50 * i))
           @ (case ImageFilterOptions.Sort opts of
                None \<Rightarrow> [] | Some s \<Rightarrow> ''&_sort='' @ QueryEscape s)
           @ (case ImageFilterOptions.AvailabilityZone opts of
                None \<Rightarrow> [] | Some z \<Rightarrow> ''&availability-zone='' @ QueryEscape z)\<rparr>,
      Ctx = ctx,
      Body = None\<rparr>"

text \<open>
  A decoder whose envelopes have their metadata block (offset, limit, count, total)
  replaced by \<open>f\<close> of it: the same pages with other metadata.
\<close>

definition with_meta ::
  "(Meta \<Rightarrow> Meta) \<Rightarrow> (string \<Rightarrow> ImageList option) \<Rightarrow> string \<Rightarrow> ImageList option" where
  "with_meta f decode b = map_option (\<lambda>r. r\<lparr>Meta := f (Meta r)\<rparr>) (decode b)"

text \<open>The integer a decimal string denotes, to read back what \<open>Itoa\<close> writes.\<close>

definition digit_val :: "char \<Rightarrow> int" where
  "digit_val c = int (of_char c) - 48"

definition decimal_value :: "string \<Rightarrow> int" where
  "decimal_value s =
     (case s of
        [] \<Rightarrow> 0
      | c # cs \<Rightarrow>
          if c = CHR ''-'' then - foldl (\<lambda>a d. 10 * a + digit_val d) 0 cs
          else foldl (\<lambda>a d. 10 * a + digit_val d) 0 s)"

section \<open>compute: custom images\<close>

text \<open>
  \<open>customImageService.Create\<close> (custom_images.go). The response type is the
  anonymous \<open>struct{ ID string }\<close>; the result is Go's pair \<open>(string, error)\<close>.
\<close>

record IDResponse =
  ID :: string

definition Create ::
  "('s, 'ctx) Config \<Rightarrow> (string \<Rightarrow> IDResponse option) \<Rightarrow> ('s, 'ctx) world \<Rightarrow> 'ctx
     \<Rightarrow> CreateCustomImageRequest \<Rightarrow> (string \<times> error option) \<times> ('s, 'ctx) world" where
  "Create cfg decode w ctx createReq =
     (case ExecuteSimpleRequestWithRespBody (newRequest cfg) cfg decode w ctx MethodPost
             ''/v1/images/custom'' (Some createReq) of
        (Inl err, w') \<Rightarrow> (([], Some err), w')
      | (Inr res, w') \<Rightarrow> ((IDResponse.ID res, None), w'))"

section \<open>Example servers\<close>

text \<open>
  Concrete configurations for the examples. \<open>decode_example\<close> stands for the JSON
  decoder of the list envelope on two bodies: \<open>full\<close> is a page of 50 records and
  \<open>short\<close> a page of 2. \<open>paged_server\<close> serves the full page at offset 0 and the
  short page at every other offset.
\<close>

definition sample_image :: Image where
  "sample_image =
     \<lparr>Image.ID = ''img1'', Name = ''ubuntu-20.04'', Status = ''active'', Version = None,
      Platform = None, ReleaseAt = None, EndStandardSupportAt = None, EndLifeAt = None,
      MinimumRequirements = \<lparr>VCPU = 0, RAM = 0, Disk = 0\<rparr>, Labels = None,
      AvailabilityZones = None\<rparr>"

definition decode_example :: "string \<Rightarrow> ImageList option" where
  "decode_example b =
     (if b = ''full'' then
        Some \<lparr>Meta = \<lparr>Page = \<lparr>page_offset = 0, page_limit = 50, page_count = 50, page_total = 52\<rparr>\<rparr>,
              Images = replicate 50 sample_image\<rparr>
      else if b = ''short'' then
        Some \<lparr>Meta = \<lparr>Page = \<lparr>page_offset = 50, page_limit = 50, page_count = 2, page_total = 52\<rparr>\<rparr>,
              Images = [sample_image, sample_image]\<rparr>
      else None)"

definition example_base :: URL where
  "example_base = \<lparr>Scheme = ''https'', Host = ''api.example.test'', Path = [], RawQuery = []\<rparr>"

definition paged_server :: "(unit, unit) Config" where
  "paged_server =
     \<lparr>BaseURL = example_base,
      HTTPClient = (\<lambda>s req.
        (Inr \<lparr>StatusCode = 200,
              RespBody = Some (if RawQuery (Url req) = ''_limit=50&_offset=0'' then ''full''
                               else ''short'')\<rparr>, s)),
      build_error = (\<lambda>method path. None)\<rparr>"

definition no_filters :: ImageFilterOptions where
  "no_filters = \<lparr>ImageFilterOptions.Sort = None, AvailabilityZone = None\<rparr>"

definition start :: "(unit, unit) world" where
  "start = \<lparr>server = (), sent = []\<rparr>"

text \<open>
  \<open>failing_server\<close> serves the full page at offset 0 and answers every other request
  with status 500; \<open>error_server\<close> answers every request with status 500.
\<close>

definition failing_server :: "(unit, unit) Config" where
  "failing_server =
     \<lparr>BaseURL = example_base,
      HTTPClient = (\<lambda>s req.
        (Inr (if RawQuery (Url req) = ''_limit=50&_offset=0''
              then \<lparr>StatusCode = 200, RespBody = Some ''full''\<rparr>
              else \<lparr>StatusCode = 500, RespBody = Some ''internal server error''\<rparr>), s)),
      build_error = (\<lambda>method path. None)\<rparr>"

definition error_server :: "(unit, unit) Config" where
  "error_server =
     \<lparr>BaseURL = example_base,
      HTTPClient = (\<lambda>s req.
        (Inr \<lparr>StatusCode = 500, RespBody = Some ''internal server error''\<rparr>, s)),
      build_error = (\<lambda>method path. None)\<rparr>"

text \<open>
  \<open>empty_body_server\<close> answers with status 200 and an empty body,
  \<open>short_page_server\<close> with the short page whatever the request. For custom images: the request and the
  response body of the create scenario, a decoder that reads an object with the single
  key \<open>id\<close> (it stands for the JSON decoder of \<open>struct{ ID string }\<close> on such
  bodies), a server that answers with that body, and one that reports a conflict.
\<close>

definition empty_body_server :: "(unit, unit) Config" where
  "empty_body_server =
     \<lparr>BaseURL = example_base,
      HTTPClient = (\<lambda>s req. (Inr \<lparr>StatusCode = 200, RespBody = Some []\<rparr>, s)),
      build_error = (\<lambda>method path. None)\<rparr>"

definition short_page_server :: "(unit, unit) Config" where
  "short_page_server =
     \<lparr>BaseURL = example_base,
      HTTPClient = (\<lambda>s req. (Inr \<lparr>StatusCode = 200, RespBody = Some ''short''\<rparr>, s)),
      build_error = (\<lambda>method path. None)\<rparr>"

definition scenario_id :: string where
  "scenario_id = ''8cf5c6d9-d5c5-4af9-bd1b-c17d032dc761''"

definition scenario_body :: string where
  \<open>scenario_body = ''{"id": "8cf5c6d9-d5c5-4af9-bd1b-c17d032dc761"}''\<close>

definition scenario_request :: CreateCustomImageRequest where
  "scenario_request =
     \<lparr>CreateCustomImageRequest.Name = ''test-image'', Platform = PlatformLinux,
      Architecture = ArchitectureX86_64, License = LicenseUnlicensed,
      URL = ''https://example.test/image.qcow2'', Requirements = None, Version = None,
      Description = None, UEFI = None\<rparr>"

definition decode_id_example :: "string \<Rightarrow> IDResponse option" where
  \<open>decode_id_example b =
     (if take 8 b = ''{"id": "'' then
        (case Cut (CHR 0x22) (drop 8 b) of
           (v, rest) \<Rightarrow> if rest = ''}'' then Some \<lparr>IDResponse.ID = v\<rparr> else None)
      else None)\<close>

definition create_server :: "(unit, unit) Config" where
  "create_server =
     \<lparr>BaseURL = example_base,
      HTTPClient = (\<lambda>s req. (Inr \<lparr>StatusCode = 200, RespBody = Some scenario_body\<rparr>, s)),
      build_error = (\<lambda>method path. None)\<rparr>"

definition conflict_server :: "(unit, unit) Config" where
  "conflict_server =
     \<lparr>BaseURL = example_base,
      HTTPClient = (\<lambda>s req. (Inr \<lparr>StatusCode = 409, RespBody = Some ''duplicate name''\<rparr>, s)),
      build_error = (\<lambda>method path. None)\<rparr>"

section \<open>Theorems: objectstorage\<close>

text \<open>
  C5. For every method string other than GET, HEAD and PUT, GeneratePresignedURL returns
  a nil URL and an InvalidHTTPMethodError carrying that method, and issues no call on
  the storage client (the client's state and the list of calls are unchanged). For GET,
  HEAD and PUT it is exactly the corresponding presign operation of the client, called
  once.
\<close>

theorem GeneratePresignedURL_dispatch:
  "(method \<notin> {''GET'', ''HEAD'', ''PUT''} \<longrightarrow>
      GeneratePresignedURL mc w ctx method b k e ps
        = ((None, Some (InvalidHTTPMethodError method)), w))
   \<and> GeneratePresignedURL mc w ctx ''GET'' b k e ps
        = (fst (PresignedGetObject mc (client_state w) ctx b k e ps),
           \<lparr>client_state = snd (PresignedGetObject mc (client_state w) ctx b k e ps),
            calls = calls w @ [CallPresignedGetObject ctx b k e ps]\<rparr>)
   \<and> GeneratePresignedURL mc w ctx ''HEAD'' b k e ps
        = (fst (PresignedHeadObject mc (client_state w) ctx b k e ps),
           \<lparr>client_state = snd (PresignedHeadObject mc (client_state w) ctx b k e ps),
            calls = calls w @ [CallPresignedHeadObject ctx b k e ps]\<rparr>)
   \<and> GeneratePresignedURL mc w ctx ''PUT'' b k e ps
        = (fst (PresignedPutObject mc (client_state w) ctx b k e),
           \<lparr>client_state = snd (PresignedPutObject mc (client_state w) ctx b k e),
            calls = calls w @ [CallPresignedPutObject ctx b k e]\<rparr>)"
  by (simp add: GeneratePresignedURL_def MethodGet_def MethodHead_def MethodPut_def
      call_PresignedGetObject_def call_PresignedHeadObject_def call_PresignedPutObject_def
      split: prod.split)

theorem GeneratePresignedURL_dispatch_witness:
  "''DELETE'' \<notin> {''GET'', ''HEAD'', ''PUT''}
   \<and> GeneratePresignedURL counting_client \<lparr>client_state = 0, calls = []\<rparr> () ''DELETE''
        ''test-bucket'' ''test-key'' 60000000000 []
      = ((None, Some (InvalidHTTPMethodError ''DELETE'')), \<lparr>client_state = 0, calls = []\<rparr>)"
  using GeneratePresignedURL_dispatch
    [of "''DELETE''" counting_client "\<lparr>client_state = 0, calls = []\<rparr>" "()"
        "''test-bucket''" "''test-key''" 60000000000 "[]"]
  by simp

text \<open>
  C9. For PUT the outcome of GeneratePresignedURL (URL, error, and the call issued on the
  storage client) does not depend on reqParams: two calls that differ only in reqParams,
  from the same client state, give the same result.
\<close>

theorem GeneratePresignedURL_put_ignores_reqParams:
  "GeneratePresignedURL mc w ctx ''PUT'' b k e ps1
     = GeneratePresignedURL mc w ctx ''PUT'' b k e ps2"
  by (simp add: GeneratePresignedURL_def MethodGet_def MethodHead_def MethodPut_def)

section \<open>Lemmas: the query string\<close>

lemma digit_char_unreserved: "d < 10 \<Longrightarrow> unreserved (digit_char d)"
proof -
  assume "d < 10"
  then have "d \<in> {0,1,2,3,4,5,6,7,8,9}" by auto
  then show ?thesis
    by (auto simp: digit_char_def unreserved_def)
qed

lemma digits_unreserved: "c \<in> set (digits n) \<Longrightarrow> unreserved c"
proof (induction n rule: digits.induct)
  case (1 n)
  show ?case
  proof (cases "n < 10")
    case True
    with "1.prems" show ?thesis
      by (simp add: digits.simps [of n] digit_char_unreserved)
  next
    case False
    with "1.prems" have "c \<in> set (digits (n div 10)) \<or> c = digit_char (n mod 10)"
      by (auto simp: digits.simps [of n])
    then show ?thesis
      using "1.IH" False by (auto simp: digit_char_unreserved)
  qed
qed

lemma Itoa_unreserved: "c \<in> set (Itoa i) \<Longrightarrow> unreserved c"
  by (auto simp: Itoa_def unreserved_def dest: digits_unreserved split: if_splits)

lemma QueryEscape_unreserved: "(\<And>c. c \<in> set s \<Longrightarrow> unreserved c) \<Longrightarrow> QueryEscape s = s"
  by (induction s) (auto simp: QueryEscape_def escape_byte_def)

lemma QueryEscape_Itoa: "QueryEscape (Itoa i) = Itoa i"
  by (rule QueryEscape_unreserved) (rule Itoa_unreserved)

lemma QueryEscape_keys:
  "QueryEscape ''_limit'' = ''_limit''" "QueryEscape ''_offset'' = ''_offset''"
  "QueryEscape ''_sort'' = ''_sort''" "QueryEscape ''availability-zone'' = ''availability-zone''"
  by (simp_all add: QueryEscape_def escape_byte_def unreserved_def)

lemma Encode_paged:
  "Encode (List_query [] \<lparr>Limit = Some l, Offset = Some off, Sort = srt, AvailabilityZone = az\<rparr>)
     = ''_limit='' @ Itoa l @ ''&_offset='' @ Itoa off
       @ (case srt of None \<Rightarrow> [] | Some s \<Rightarrow> ''&_sort='' @ QueryEscape s)
       @ (case az of None \<Rightarrow> [] | Some z \<Rightarrow> ''&availability-zone='' @ QueryEscape z)"
  by (cases srt; cases az)
     (simp_all add: List_query_def Encode_def QueryEscape_keys QueryEscape_Itoa)

lemma Encode_absent:
  "Encode (List_query [] \<lparr>Limit = None, Offset = None, Sort = None, AvailabilityZone = None\<rparr>) = []"
  by (simp add: List_query_def Encode_def)

lemma Query_newRequest:
  "newRequest cfg ctx method path body = Inr req \<Longrightarrow> Query (Url req) = []"
  by (auto simp: newRequest_def NewRequest_def Query_def parse_segment_def split: option.splits)

lemma RawQuery_newRequest:
  "newRequest cfg ctx method path body = Inr req \<Longrightarrow> RawQuery (Url req) = []"
  by (auto simp: newRequest_def NewRequest_def split: option.splits)

lemma List_sent:
  "newRequest cfg ctx MethodGet ''/v1/images'' None = Inr req \<Longrightarrow>
   sent (snd (List cfg decode w ctx opts))
     = sent w @ [req\<lparr>Url := (Url req)\<lparr>RawQuery := Encode (List_query [] opts)\<rparr>\<rparr>]"
  by (simp add: List_def Query_newRequest Do_def Let_def split: prod.splits sum.splits)

section \<open>Lemmas: the pagination loop\<close>

lemma List_result:
  "(\<exists>err. fst (List cfg decode w ctx opts) = (None, Some err))
   \<or> (\<exists>resp. fst (List cfg decode w ctx opts) = (Some resp, None))"
  by (auto simp: List_def Let_def split: sum.splits prod.splits)

lemma page_at_0:
  "page_at cfg decode ctx opts w off 0 = fst (List cfg decode w ctx (page_opts opts off))"
  by (simp add: page_at_def)

lemma page_at_Suc:
  "page_at cfg decode ctx opts w off (Suc n)
     = page_at cfg decode ctx opts (snd (List cfg decode w ctx (page_opts opts off))) (off + limit) n"
  by (simp add: page_at_def algebra_simps)

lemma ListAll_loop_step:
  "ListAll_loop cfg decode ctx opts w off acc =
     (case List cfg decode w ctx (page_opts opts off) of
        ((response, Some err), w') \<Rightarrow> Some (([], Some err), w')
      | ((None, None), w') \<Rightarrow> Some (([], Some (Panic ''nil pointer dereference'')), w')
      | ((Some response, None), w') \<Rightarrow>
          if length (Images response) < 50 then Some ((acc @ Images response, None), w')
          else ListAll_loop cfg decode ctx opts w' (off + limit) (acc @ Images response))"
  by (subst ListAll_loop.simps) (simp add: page_opts_def Let_def limit_def split: prod.splits option.splits)

lemma ListAll_loop_more:
  assumes "page_more (page_at cfg decode ctx opts w off 0)"
  shows "ListAll_loop cfg decode ctx opts w off acc
           = ListAll_loop cfg decode ctx opts (world_at cfg decode ctx opts w off 1) (off + limit)
               (acc @ page_images (page_at cfg decode ctx opts w off 0))"
  using assms
  by (subst ListAll_loop_step)
     (auto simp: page_at_0 page_more_def page_images_def split: prod.splits option.splits)

lemma ListAll_loop_unroll:
  "(\<And>i. i < k \<Longrightarrow> page_more (page_at cfg decode ctx opts w off i)) \<Longrightarrow>
   ListAll_loop cfg decode ctx opts w off acc
     = ListAll_loop cfg decode ctx opts (world_at cfg decode ctx opts w off k)
         (off + of_nat k * limit)
         (acc @ concat (map (\<lambda>i. page_images (page_at cfg decode ctx opts w off i)) [0..<k]))"
proof (induction k arbitrary: w off acc)
  case 0
  show ?case by simp
next
  case (Suc k)
  let ?w' = "snd (List cfg decode w ctx (page_opts opts off))"
  have first: "page_more (page_at cfg decode ctx opts w off 0)"
    using Suc.prems [of 0] by simp
  have rest: "\<And>i. i < k \<Longrightarrow> page_more (page_at cfg decode ctx opts ?w' (off + limit) i)"
    using Suc.prems [of "Suc _"] by (simp add: page_at_Suc)
  have idx: "[0..<Suc k] = 0 # map Suc [0..<k]"
    by (simp add: upt_conv_Cons map_Suc_upt del: upt_Suc)
  have "ListAll_loop cfg decode ctx opts w off acc
          = ListAll_loop cfg decode ctx opts ?w' (off + limit)
              (acc @ page_images (page_at cfg decode ctx opts w off 0))"
    using ListAll_loop_more [OF first, of acc] by simp
  also have "\<dots> = ListAll_loop cfg decode ctx opts
              (world_at cfg decode ctx opts ?w' (off + limit) k)
              (off + limit + of_nat k * limit)
              ((acc @ page_images (page_at cfg decode ctx opts w off 0))
               @ concat (map (\<lambda>i. page_images (page_at cfg decode ctx opts ?w' (off + limit) i))
                           [0..<k]))"
    by (rule Suc.IH [OF rest])
  also have "\<dots> = ListAll_loop cfg decode ctx opts
              (world_at cfg decode ctx opts w off (Suc k))
              (off + of_nat (Suc k) * limit)
              (acc @ concat (map (\<lambda>i. page_images (page_at cfg decode ctx opts w off i))
                              [0..<Suc k]))"
    by (simp add: idx page_at_Suc o_def algebra_simps del: upt_Suc)
  finally show ?case .
qed

lemma not_more_cases:
  "\<not> page_more (page_at cfg decode ctx opts w off k) \<longleftrightarrow>
     page_short (page_at cfg decode ctx opts w off k) \<or> page_failed (page_at cfg decode ctx opts w off k)"
  using List_result [of cfg decode "world_at cfg decode ctx opts w off k" ctx
      "page_opts opts (off + of_nat k * limit)"]
  by (auto simp: page_at_def page_more_def page_short_def page_failed_def)

lemma ListAll_loop_short:
  assumes "page_short (page_at cfg decode ctx opts w off 0)"
  shows "ListAll_loop cfg decode ctx opts w off acc
           = Some ((acc @ page_images (page_at cfg decode ctx opts w off 0), None),
                   world_at cfg decode ctx opts w off 1)"
  using assms
  by (subst ListAll_loop_step)
     (auto simp: page_at_0 page_short_def page_images_def split: prod.splits option.splits)

lemma ListAll_loop_failed:
  assumes "page_failed (page_at cfg decode ctx opts w off 0)"
  shows "ListAll_loop cfg decode ctx opts w off acc
           = Some (([], snd (page_at cfg decode ctx opts w off 0)),
                   world_at cfg decode ctx opts w off 1)"
  using assms
  by (subst ListAll_loop_step)
     (auto simp: page_at_0 page_failed_def split: prod.splits option.splits)

lemma page_at_add:
  "page_at cfg decode ctx opts (world_at cfg decode ctx opts w off k) (off + of_nat k * limit) n
     = page_at cfg decode ctx opts w off (k + n)"
proof (induction k arbitrary: w off)
  case 0
  show ?case by simp
next
  case (Suc k)
  show ?case
    using Suc.IH [of "snd (List cfg decode w ctx (page_opts opts off))" "off + limit"]
    by (simp add: page_at_Suc algebra_simps)
qed

lemma world_at_add:
  "world_at cfg decode ctx opts (world_at cfg decode ctx opts w off k) (off + of_nat k * limit) n
     = world_at cfg decode ctx opts w off (k + n)"
proof (induction k arbitrary: w off)
  case 0
  show ?case by simp
next
  case (Suc k)
  show ?case
    using Suc.IH [of "snd (List cfg decode w ctx (page_opts opts off))" "off + limit"]
    by (simp add: algebra_simps)
qed

lemma ListAll_loop_stops_short:
  assumes "\<And>i. i < k \<Longrightarrow> page_more (page_at cfg decode ctx opts w off i)"
    and "page_short (page_at cfg decode ctx opts w off k)"
  shows "ListAll_loop cfg decode ctx opts w off acc
           = Some ((acc @ concat (map (\<lambda>i. page_images (page_at cfg decode ctx opts w off i)) [0..<Suc k]),
                    None),
                   world_at cfg decode ctx opts w off (Suc k))"
proof -
  let ?wk = "world_at cfg decode ctx opts w off k"
  let ?ok = "off + of_nat k * limit"
  have "page_short (page_at cfg decode ctx opts ?wk ?ok 0)"
    using assms(2) page_at_add [of cfg decode ctx opts w off k 0] by simp
  then show ?thesis
    using ListAll_loop_unroll [of k cfg decode ctx opts w off acc, OF assms(1)]
      page_at_add [of cfg decode ctx opts w off k 0]
      world_at_add [of cfg decode ctx opts w off k 1]
    by (simp add: ListAll_loop_short)
qed

lemma ListAll_loop_stops_failed:
  assumes "\<And>i. i < k \<Longrightarrow> page_more (page_at cfg decode ctx opts w off i)"
    and "page_failed (page_at cfg decode ctx opts w off k)"
  shows "ListAll_loop cfg decode ctx opts w off acc
           = Some (([], snd (page_at cfg decode ctx opts w off k)),
                   world_at cfg decode ctx opts w off (Suc k))"
proof -
  let ?wk = "world_at cfg decode ctx opts w off k"
  let ?ok = "off + of_nat k * limit"
  have "page_failed (page_at cfg decode ctx opts ?wk ?ok 0)"
    using assms(2) page_at_add [of cfg decode ctx opts w off k 0] by simp
  then show ?thesis
    using ListAll_loop_unroll [of k cfg decode ctx opts w off acc, OF assms(1)]
      page_at_add [of cfg decode ctx opts w off k 0]
      world_at_add [of cfg decode ctx opts w off k 1]
    by (simp add: ListAll_loop_failed)
qed

lemma ListAll_loop_Some_stops:
  "ListAll_loop cfg decode ctx opts w off acc = Some y \<Longrightarrow>
   \<exists>k. \<not> page_more (page_at cfg decode ctx opts w off k)"
proof (induction rule: ListAll_loop.raw_induct [rotated 1, consumes 1])
  case (1 loop cfg decode ctx opts w off acc y)
  show ?case
  proof (cases "page_more (page_at cfg decode ctx opts w off 0)")
    case False
    then show ?thesis by blast
  next
    case True
    then obtain resp w' where r: "List cfg decode w ctx (page_opts opts off) = ((Some resp, None), w')"
      and len: "50 \<le> length (Images resp)"
      by (cases "List cfg decode w ctx (page_opts opts off)")
         (auto simp: page_at_0 page_more_def split: option.splits)
    from "1.hyps" r len have "loop cfg decode ctx opts w' (off + limit) (acc @ Images resp) = Some y"
      by (simp add: page_opts_def Let_def limit_def)
    from "1.IH" [OF this] obtain k where "\<not> page_more (page_at cfg decode ctx opts w' (off + limit) k)"
      by blast
    with r have "\<not> page_more (page_at cfg decode ctx opts w off (Suc k))"
      by (simp add: page_at_Suc)
    then show ?thesis by blast
  qed
qed

lemma ListAll_loop_terminates_iff:
  "ListAll_loop cfg decode ctx opts w off acc \<noteq> None \<longleftrightarrow>
     (\<exists>k. \<not> page_more (page_at cfg decode ctx opts w off k))"
proof
  assume "ListAll_loop cfg decode ctx opts w off acc \<noteq> None"
  then obtain y where "ListAll_loop cfg decode ctx opts w off acc = Some y"
    by auto
  then show "\<exists>k. \<not> page_more (page_at cfg decode ctx opts w off k)"
    by (rule ListAll_loop_Some_stops)
next
  assume ex: "\<exists>k. \<not> page_more (page_at cfg decode ctx opts w off k)"
  define k where "k = (LEAST k. \<not> page_more (page_at cfg decode ctx opts w off k))"
  have stop: "\<not> page_more (page_at cfg decode ctx opts w off k)"
    unfolding k_def using ex by (rule LeastI_ex)
  have before: "\<And>i. i < k \<Longrightarrow> page_more (page_at cfg decode ctx opts w off i)"
    unfolding k_def using not_less_Least by blast
  from stop have "page_short (page_at cfg decode ctx opts w off k)
                  \<or> page_failed (page_at cfg decode ctx opts w off k)"
    by (simp add: not_more_cases)
  then show "ListAll_loop cfg decode ctx opts w off acc \<noteq> None"
    using ListAll_loop_stops_short [OF before] ListAll_loop_stops_failed [OF before]
    by auto
qed

lemma List_success_newRequest:
  "fst (List cfg decode w ctx lopts) = (Some resp, None) \<Longrightarrow>
   \<exists>req. newRequest cfg ctx MethodGet ''/v1/images'' None = Inr req"
  by (cases "newRequest cfg ctx MethodGet ''/v1/images'' None") (auto simp: List_def)

lemma sent_world_at:
  "newRequest cfg ctx MethodGet ''/v1/images'' None = Inr req \<Longrightarrow>
   sent (world_at cfg decode ctx opts w off n)
     = sent w @ map (\<lambda>i. req\<lparr>Url := (Url req)
                  \<lparr>RawQuery := Encode (List_query [] (page_opts opts (off + of_nat i * limit)))\<rparr>\<rparr>)
                [0..<n]"
proof (induction n arbitrary: w off)
  case 0
  show ?case by simp
next
  case (Suc n)
  have idx: "[0..<Suc n] = 0 # map Suc [0..<n]"
    by (simp add: upt_conv_Cons map_Suc_upt del: upt_Suc)
  show ?case
    using Suc.IH [OF Suc.prems, of "snd (List cfg decode w ctx (page_opts opts off))" "off + limit"]
    by (simp add: idx List_sent [OF Suc.prems] o_def algebra_simps del: upt_Suc)
qed

lemma Itoa_50: "Itoa 50 = ''50''"
  by (simp add: Itoa_def digits.simps digit_char_def)

lemma page_request_eq:
  assumes "newRequest cfg ctx MethodGet ''/v1/images'' None = Inr req"
  shows "req\<lparr>Url := (Url req)
           \<lparr>RawQuery := Encode (List_query [] (page_opts opts (0 + of_nat i * limit)))\<rparr>\<rparr>
         = page_request cfg ctx opts i"
  using assms
  by (auto simp: page_opts_def Encode_paged page_request_def newRequest_def NewRequest_def
      limit_def Itoa_50 MethodGet_def DefaultBasePath_def mult.commute split: option.splits)

lemma page_full_more: "page_full r \<Longrightarrow> page_more r"
  by (auto simp: page_full_def page_more_def split: option.splits prod.splits)

section \<open>Theorems: listing all images\<close>

text \<open>
  C1. When pages 0..k-1 of a listing are full (each succeeds with exactly 50 records) and
  page k is short (succeeds with fewer than 50), ListAll returns, with a nil error, the
  concatenation of the records of pages 0..k in page order; its length is the sum of the
  per-page counts, that is 50 * k plus the count of the last page; and the requests sent
  are exactly the k+1 single-page requests with limit 50, offsets 0, 50, 100, ..., and the
  caller's sort and availability-zone filters.
\<close>

theorem ListAll_concatenates_pages:
  assumes "\<forall>i<k. page_full (page_at cfg decode ctx opts w 0 i)"
    and "page_short (page_at cfg decode ctx opts w 0 k)"
  shows "ListAll cfg decode w ctx opts
           = Some ((collected cfg decode ctx opts w (Suc k), None),
                   world_at cfg decode ctx opts w 0 (Suc k))
         \<and> length (collected cfg decode ctx opts w (Suc k))
             = 50 * k + length (page_images (page_at cfg decode ctx opts w 0 k))
         \<and> length (collected cfg decode ctx opts w (Suc k))
             = sum_list (map (\<lambda>i. length (page_images (page_at cfg decode ctx opts w 0 i))) [0..<Suc k])
         \<and> sent (world_at cfg decode ctx opts w 0 (Suc k))
             = sent w @ map (page_request cfg ctx opts) [0..<Suc k]"
proof -
  have more: "\<And>i. i < k \<Longrightarrow> page_more (page_at cfg decode ctx opts w 0 i)"
    using assms(1) by (simp add: page_full_more)
  have result: "ListAll cfg decode w ctx opts
           = Some ((collected cfg decode ctx opts w (Suc k), None),
                   world_at cfg decode ctx opts w 0 (Suc k))"
    unfolding ListAll_def collected_def
    using ListAll_loop_stops_short [OF more assms(2), of "[]"] by simp
  have sum: "length (collected cfg decode ctx opts w (Suc k))
             = sum_list (map (\<lambda>i. length (page_images (page_at cfg decode ctx opts w 0 i))) [0..<Suc k])"
    unfolding collected_def by (simp add: length_concat o_def del: upt_Suc)
  have "\<And>i. i < k \<Longrightarrow> length (page_images (page_at cfg decode ctx opts w 0 i)) = 50"
    using assms(1) by (auto simp: page_full_def page_images_def split: option.splits prod.splits)
  then have "map (\<lambda>i. length (page_images (page_at cfg decode ctx opts w 0 i))) [0..<k]
               = map (\<lambda>i. 50) [0..<k]"
    by (intro map_cong) auto
  then have "sum_list (map (\<lambda>i. length (page_images (page_at cfg decode ctx opts w 0 i))) [0..<k])
               = sum_list (map (\<lambda>i. 50) [0..<k])"
    by (rule arg_cong)
  then have "sum_list (map (\<lambda>i. length (page_images (page_at cfg decode ctx opts w 0 i))) [0..<k]) = 50 * k"
    by (simp add: sum_list_triv)
  then have len: "length (collected cfg decode ctx opts w (Suc k))
             = 50 * k + length (page_images (page_at cfg decode ctx opts w 0 k))"
    using sum by simp
  obtain resp where "page_at cfg decode ctx opts w 0 k = (Some resp, None)"
    using assms(2) by (auto simp: page_short_def split: option.splits prod.splits)
  then have "\<exists>req. newRequest cfg ctx MethodGet ''/v1/images'' None = Inr req"
    unfolding page_at_def by (rule List_success_newRequest)
  then obtain req where req: "newRequest cfg ctx MethodGet ''/v1/images'' None = Inr req" ..
  have "sent (world_at cfg decode ctx opts w 0 (Suc k))
             = sent w @ map (page_request cfg ctx opts) [0..<Suc k]"
    using sent_world_at [OF req, of decode opts w 0 "Suc k"]
    by (simp only: page_request_eq [OF req])
  with result len sum show ?thesis by simp
qed

lemmas example_eval = page_at_def List_def paged_server_def decode_example_def no_filters_def start_def
    page_opts_def newRequest_def NewRequest_def Do_def Encode_paged Query_def parse_segment_def limit_def
    Itoa_def digits.simps digit_char_def example_base_def MethodGet_def DefaultBasePath_def

theorem ListAll_concatenates_pages_witness:
  "ListAll paged_server decode_example start () no_filters
     = Some ((replicate 50 sample_image @ [sample_image, sample_image], None),
             \<lparr>server = (),
              sent = [page_request paged_server () no_filters 0,
                      page_request paged_server () no_filters 1]\<rparr>)
   \<and> RawQuery (Url (page_request paged_server () no_filters 1)) = ''_limit=50&_offset=50''"
proof -
  have full: "\<forall>i<1. page_full (page_at paged_server decode_example () no_filters start 0 i)"
    by (simp add: example_eval page_full_def)
  have short: "page_short (page_at paged_server decode_example () no_filters start 0 1)"
    by (simp add: example_eval page_short_def)
  have imgs: "collected paged_server decode_example () no_filters start (Suc 1)
                = replicate 50 sample_image @ [sample_image, sample_image]"
    by (simp add: collected_def page_images_def example_eval)
  have w: "world_at paged_server decode_example () no_filters start 0 (Suc 1)
             = \<lparr>server = (),
              sent = [page_request paged_server () no_filters 0,
                      page_request paged_server () no_filters 1]\<rparr>"
    by (simp add: example_eval page_request_def)
  show ?thesis
    using ListAll_concatenates_pages [OF full short] imgs w
    by (simp add: page_request_def no_filters_def Itoa_50)
qed

text \<open>
  C3. When the single-page call for page k fails (its error is not nil) after pages
  0..k-1 let the loop go on, ListAll returns that error together with the nil slice: the
  records accumulated from the earlier pages are not returned.
\<close>

theorem ListAll_failed_page_discards:
  assumes "\<forall>i<k. page_more (page_at cfg decode ctx opts w 0 i)"
    and "page_failed (page_at cfg decode ctx opts w 0 k)"
  shows "ListAll cfg decode w ctx opts
           = Some (([], snd (page_at cfg decode ctx opts w 0 k)),
                   world_at cfg decode ctx opts w 0 (Suc k))
         \<and> snd (page_at cfg decode ctx opts w 0 k) \<noteq> None"
proof -
  have more: "\<And>i. i < k \<Longrightarrow> page_more (page_at cfg decode ctx opts w 0 i)"
    using assms(1) by simp
  show ?thesis
    unfolding ListAll_def
    using ListAll_loop_stops_failed [OF more assms(2), of "[]"] assms(2)
    by (simp add: page_failed_def)
qed

lemmas failing_eval = page_at_def List_def failing_server_def decode_example_def no_filters_def
    start_def page_opts_def newRequest_def NewRequest_def Do_def Encode_paged Query_def
    parse_segment_def limit_def Itoa_def digits.simps digit_char_def example_base_def MethodGet_def
    DefaultBasePath_def error_of_status_def

theorem ListAll_failed_page_discards_witness:
  "ListAll failing_server decode_example start () no_filters
     = Some (([], Some (ServerError ''internal server error'')),
             \<lparr>server = (),
              sent = [page_request failing_server () no_filters 0,
                      page_request failing_server () no_filters 1]\<rparr>)"
proof -
  have more: "\<forall>i<1. page_more (page_at failing_server decode_example () no_filters start 0 i)"
    by (simp add: failing_eval page_more_def)
  have failed: "page_failed (page_at failing_server decode_example () no_filters start 0 1)"
    by (simp add: failing_eval page_failed_def)
  have err: "snd (page_at failing_server decode_example () no_filters start 0 1)
               = Some (ServerError ''internal server error'')"
    by (simp add: failing_eval)
  have w: "world_at failing_server decode_example () no_filters start 0 (Suc 1)
             = \<lparr>server = (),
                sent = [page_request failing_server () no_filters 0,
                        page_request failing_server () no_filters 1]\<rparr>"
    by (simp add: failing_eval page_request_def)
  show ?thesis
    using ListAll_failed_page_discards [OF more failed] err w by simp
qed

lemma List_with_meta:
  "List cfg (with_meta f decode) w ctx lopts
     = (case List cfg decode w ctx lopts of
          ((r, e), w') \<Rightarrow> ((map_option (\<lambda>r. r\<lparr>Meta := f (Meta r)\<rparr>) r, e), w'))"
  by (auto simp: List_def Do_def with_meta_def Let_def split: sum.splits prod.splits option.splits)

lemma world_at_with_meta:
  "world_at cfg (with_meta f decode) ctx opts w off n = world_at cfg decode ctx opts w off n"
  by (induction n arbitrary: w off) (simp_all add: List_with_meta split: prod.splits)

lemma page_at_with_meta:
  "page_at cfg (with_meta f decode) ctx opts w off n
     = (case page_at cfg decode ctx opts w off n of
          (r, e) \<Rightarrow> (map_option (\<lambda>r. r\<lparr>Meta := f (Meta r)\<rparr>) r, e))"
  by (simp add: page_at_def world_at_with_meta List_with_meta split: prod.splits)

lemma page_with_meta_simps:
  "page_more (page_at cfg (with_meta f decode) ctx opts w off n)
     = page_more (page_at cfg decode ctx opts w off n)"
  "page_short (page_at cfg (with_meta f decode) ctx opts w off n)
     = page_short (page_at cfg decode ctx opts w off n)"
  "page_failed (page_at cfg (with_meta f decode) ctx opts w off n)
     = page_failed (page_at cfg decode ctx opts w off n)"
  "page_images (page_at cfg (with_meta f decode) ctx opts w off n)
     = page_images (page_at cfg decode ctx opts w off n)"
  "snd (page_at cfg (with_meta f decode) ctx opts w off n)
     = snd (page_at cfg decode ctx opts w off n)"
  by (auto simp: page_at_with_meta page_more_def page_short_def page_failed_def page_images_def
      split: prod.splits option.splits)

lemma ListAll_loop_with_meta:
  "ListAll_loop cfg (with_meta f decode) ctx opts w off acc
     = ListAll_loop cfg decode ctx opts w off acc"
proof (cases "\<exists>k. \<not> page_more (page_at cfg decode ctx opts w off k)")
  case False
  then have "ListAll_loop cfg decode ctx opts w off acc = None"
    using ListAll_loop_terminates_iff [of cfg decode ctx opts w off acc] by blast
  moreover from False
  have "\<not> (\<exists>k. \<not> page_more (page_at cfg (with_meta f decode) ctx opts w off k))"
    by (simp add: page_with_meta_simps)
  then have "ListAll_loop cfg (with_meta f decode) ctx opts w off acc = None"
    using ListAll_loop_terminates_iff [of cfg "with_meta f decode" ctx opts w off acc]
    by blast
  ultimately show ?thesis by simp
next
  case True
  define k where "k = (LEAST k. \<not> page_more (page_at cfg decode ctx opts w off k))"
  have stop: "\<not> page_more (page_at cfg decode ctx opts w off k)"
    unfolding k_def using True by (rule LeastI_ex)
  have before: "\<And>i. i < k \<Longrightarrow> page_more (page_at cfg decode ctx opts w off i)"
    unfolding k_def using not_less_Least by blast
  have before': "\<And>i. i < k \<Longrightarrow> page_more (page_at cfg (with_meta f decode) ctx opts w off i)"
    using before by (simp add: page_with_meta_simps)
  from stop have "page_short (page_at cfg decode ctx opts w off k)
                  \<or> page_failed (page_at cfg decode ctx opts w off k)"
    by (simp add: not_more_cases)
  then show ?thesis
  proof
    assume short: "page_short (page_at cfg decode ctx opts w off k)"
    then have short': "page_short (page_at cfg (with_meta f decode) ctx opts w off k)"
      by (simp add: page_with_meta_simps)
    show ?thesis
      by (simp only: ListAll_loop_stops_short [OF before short]
          ListAll_loop_stops_short [OF before' short'] page_with_meta_simps world_at_with_meta)
  next
    assume failed: "page_failed (page_at cfg decode ctx opts w off k)"
    then have failed': "page_failed (page_at cfg (with_meta f decode) ctx opts w off k)"
      by (simp add: page_with_meta_simps)
    show ?thesis
      by (simp only: ListAll_loop_stops_failed [OF before failed]
          ListAll_loop_stops_failed [OF before' failed'] page_with_meta_simps world_at_with_meta)
  qed
qed

text \<open>
  C2, as amended. ListAll returns if and only if some page of the listing either returns
  fewer than 50 records or fails; and the metadata block of the envelopes (offset, limit,
  count, total) has no influence on the run: replacing it by anything, in every page,
  leaves the outcome of ListAll unchanged, non-termination included.
\<close>

theorem ListAll_terminates_iff:
  "(ListAll cfg decode w ctx opts \<noteq> None)
     = (\<exists>k. page_short (page_at cfg decode ctx opts w 0 k)
            \<or> page_failed (page_at cfg decode ctx opts w 0 k))
   \<and> ListAll cfg (with_meta f decode) w ctx opts = ListAll cfg decode w ctx opts"
proof -
  have "(ListAll_loop cfg decode ctx opts w 0 [] \<noteq> None)
          = (\<exists>k. page_short (page_at cfg decode ctx opts w 0 k)
                 \<or> page_failed (page_at cfg decode ctx opts w 0 k))"
    by (simp only: ListAll_loop_terminates_iff not_more_cases)
  then show ?thesis
    unfolding ListAll_def by (simp only: ListAll_loop_with_meta simp_thms)
qed

theorem ListAll_terminates_iff_witness:
  "ListAll paged_server decode_example start () no_filters \<noteq> None
   \<and> page_short (page_at paged_server decode_example () no_filters start 0 1)"
proof -
  have short: "page_short (page_at paged_server decode_example () no_filters start 0 1)"
    by (simp add: example_eval page_short_def)
  then show ?thesis
    using ListAll_terminates_iff [of paged_server decode_example start "()" no_filters]
    by blast
qed

lemma error_server_page:
  "page_at error_server decode_example () no_filters start 0 k
     = (None, Some (ServerError ''internal server error''))"
  by (simp add: page_at_def List_def error_server_def newRequest_def NewRequest_def Do_def
      error_of_status_def)

text \<open>
  C2 as stated (ListAll terminates if and only if some page returns fewer than 50
  records) fails on a server that answers every request with status 500: ListAll returns
  after the first request, with the server error, and no page of the listing is short.
\<close>

theorem ListAll_terminates_without_short_page:
  "ListAll error_server decode_example start () no_filters
     = Some (([], Some (ServerError ''internal server error'')),
             \<lparr>server = (), sent = [page_request error_server () no_filters 0]\<rparr>)
   \<and> \<not> (\<exists>k. page_short (page_at error_server decode_example () no_filters start 0 k))"
proof -
  have "page_failed (page_at error_server decode_example () no_filters start 0 0)"
    by (simp add: error_server_page page_failed_def)
  then have "ListAll_loop error_server decode_example () no_filters start 0 []
               = Some (([], snd (page_at error_server decode_example () no_filters start 0 0)),
                       world_at error_server decode_example () no_filters start 0 1)"
    by (rule ListAll_loop_failed)
  moreover have "world_at error_server decode_example () no_filters start 0 1
                   = \<lparr>server = (), sent = [page_request error_server () no_filters 0]\<rparr>"
    by (simp add: List_def error_server_def newRequest_def NewRequest_def Do_def Encode_paged
        Query_def parse_segment_def page_opts_def limit_def no_filters_def start_def
        page_request_def MethodGet_def DefaultBasePath_def Itoa_def digits.simps digit_char_def)
  ultimately show ?thesis
    by (simp add: ListAll_def error_server_page page_short_def)
qed

lemma List_fails_on_transport_error:
  assumes "\<forall>r. fst (HTTPClient cfg (server w) r) = Inl e"
  shows "page_failed (fst (List cfg decode w ctx lopts))"
proof (cases "newRequest cfg ctx MethodGet ''/v1/images'' None")
  case (Inl err)
  then show ?thesis by (simp add: List_def page_failed_def)
next
  case (Inr req)
  let ?r = "req\<lparr>Url := (Url req)\<lparr>RawQuery := Encode (List_query (Query (Url req)) lopts)\<rparr>\<rparr>"
  from assms have "fst (HTTPClient cfg (server w) ?r) = Inl e" by blast
  then obtain s' where "HTTPClient cfg (server w) ?r = (Inl e, s')"
    by (cases "HTTPClient cfg (server w) ?r") simp
  with Inr show ?thesis
    by (simp add: List_def Do_def Let_def page_failed_def)
qed

lemma List_fails_on_non_2xx:
  assumes "\<forall>r. fst (HTTPClient cfg (server w) r) = Inr resp"
    and "\<not> (200 \<le> StatusCode resp \<and> StatusCode resp < 300)"
  shows "page_failed (fst (List cfg decode w ctx lopts))"
proof (cases "newRequest cfg ctx MethodGet ''/v1/images'' None")
  case (Inl err)
  then show ?thesis by (simp add: List_def page_failed_def)
next
  case (Inr req)
  let ?r = "req\<lparr>Url := (Url req)\<lparr>RawQuery := Encode (List_query (Query (Url req)) lopts)\<rparr>\<rparr>"
  from assms(1) have "fst (HTTPClient cfg (server w) ?r) = Inr resp" by blast
  then obtain s' where "HTTPClient cfg (server w) ?r = (Inr resp, s')"
    by (cases "HTTPClient cfg (server w) ?r") simp
  with Inr assms(2) show ?thesis
    by (auto simp: List_def Do_def Let_def page_failed_def split: option.splits)
qed

lemma List_fails_on_decode_error:
  assumes "\<forall>r. fst (HTTPClient cfg (server w) r) = Inr resp"
    and "RespBody resp = Some b" and "decode b = None"
  shows "page_failed (fst (List cfg decode w ctx lopts))"
proof (cases "newRequest cfg ctx MethodGet ''/v1/images'' None")
  case (Inl err)
  then show ?thesis by (simp add: List_def page_failed_def)
next
  case (Inr req)
  let ?r = "req\<lparr>Url := (Url req)\<lparr>RawQuery := Encode (List_query (Query (Url req)) lopts)\<rparr>\<rparr>"
  from assms(1) have "fst (HTTPClient cfg (server w) ?r) = Inr resp" by blast
  then obtain s' where "HTTPClient cfg (server w) ?r = (Inr resp, s')"
    by (cases "HTTPClient cfg (server w) ?r") simp
  with Inr assms(2,3) show ?thesis
    by (auto simp: List_def Do_def Let_def page_failed_def)
qed

section \<open>Theorems: listing one page\<close>

text \<open>
  C6. When Limit, Offset, Sort and AvailabilityZone are all nil, the request List sends
  is the request as built, and its query string is empty: no parameter is emitted for an
  absent field.
\<close>

theorem List_absent_options_empty_query:
  assumes "newRequest cfg ctx MethodGet ''/v1/images'' None = Inr req"
  shows "sent (snd (List cfg decode w ctx
                      \<lparr>Limit = None, Offset = None, Sort = None, AvailabilityZone = None\<rparr>))
           = sent w @ [req]
         \<and> RawQuery (Url req) = []"
  using assms RawQuery_newRequest [OF assms]
  by (simp add: List_sent Encode_absent)

theorem List_absent_options_empty_query_witness:
  "sent (snd (List short_page_server decode_example start ()
                \<lparr>Limit = None, Offset = None, Sort = None, AvailabilityZone = None\<rparr>))
     = [\<lparr>Method = ''GET'',
         Url = \<lparr>Scheme = ''https'', Host = ''api.example.test'', Path = ''/compute/v1/images'',
                RawQuery = []\<rparr>,
         Ctx = (), Body = None\<rparr>]"
proof -
  have a: "newRequest short_page_server () MethodGet ''/v1/images'' None
             = Inr \<lparr>Method = ''GET'',
                    Url = \<lparr>Scheme = ''https'', Host = ''api.example.test'',
                           Path = ''/compute/v1/images'', RawQuery = []\<rparr>,
                    Ctx = (), Body = None\<rparr>"
    by (simp add: newRequest_def NewRequest_def short_page_server_def MethodGet_def
        DefaultBasePath_def example_base_def)
  show ?thesis
    using List_absent_options_empty_query [OF a, where decode = decode_example and w = start]
    by (simp add: start_def)
qed

lemma digit_val_digit_char: "d < 10 \<Longrightarrow> digit_val (digit_char d) = int d"
proof -
  assume "d < 10"
  then have "d \<in> {0,1,2,3,4,5,6,7,8,9}" by auto
  then show ?thesis
    by (auto simp: digit_char_def digit_val_def)
qed

lemma digit_char_not_minus: "d < 10 \<Longrightarrow> digit_char d \<noteq> CHR ''-''"
  using digit_val_digit_char [of d] by (auto simp: digit_val_def)

lemma foldl_digits: "foldl (\<lambda>a d. 10 * a + digit_val d) 0 (digits n) = int n"
proof (induction n rule: digits.induct)
  case (1 n)
  show ?case
  proof (cases "n < 10")
    case True
    then show ?thesis
      by (simp add: digits.simps [of n] digit_val_digit_char)
  next
    case False
    have "int n = int (10 * (n div 10) + n mod 10)" by simp
    then have "10 * int (n div 10) + int (n mod 10) = int n"
      by (simp only: of_nat_add of_nat_mult of_nat_numeral)
    with False show ?thesis
      using "1.IH" by (simp add: digits.simps [of n] digit_val_digit_char)
  qed
qed

lemma digits_Cons: "\<exists>c cs. digits n = c # cs \<and> c \<noteq> CHR ''-''"
proof (induction n rule: digits.induct)
  case (1 n)
  show ?case
  proof (cases "n < 10")
    case True
    then show ?thesis
      by (simp add: digits.simps [of n] digit_char_not_minus)
  next
    case False
    then show ?thesis
      using "1.IH" by (auto simp: digits.simps [of n])
  qed
qed

lemma decimal_value_digits: "decimal_value (digits n) = int n"
  using digits_Cons [of n] foldl_digits [of n]
  by (auto simp: decimal_value_def)

lemma decimal_value_Itoa: "decimal_value (Itoa i) = sint i"
proof (cases "sint i < 0")
  case True
  then show ?thesis
    using foldl_digits [of "nat (- sint i)"] by (simp add: Itoa_def decimal_value_def)
next
  case False
  then show ?thesis
    by (simp add: Itoa_def decimal_value_digits)
qed

text \<open>
  C7. For every pair of integers (limit, offset), negative and zero included, the request
  List sends has the query \<open>_limit=<limit>&_offset=<offset>\<close> (followed by the sort
  and availability-zone parameters when present), where each value is the output of Itoa
  on the given integer, unescaped and unclamped, and that output is the decimal string of
  the integer: read back as a decimal number it is the integer itself.
\<close>

theorem List_limit_offset_literal:
  assumes "newRequest cfg ctx MethodGet ''/v1/images'' None = Inr req"
  shows "sent (snd (List cfg decode w ctx
                      \<lparr>Limit = Some l, Offset = Some off, Sort = srt, AvailabilityZone = az\<rparr>))
           = sent w @ [req\<lparr>Url := (Url req)
               \<lparr>RawQuery := ''_limit='' @ Itoa l @ ''&_offset='' @ Itoa off
                  @ (case srt of None \<Rightarrow> [] | Some s \<Rightarrow> ''&_sort='' @ QueryEscape s)
                  @ (case az of None \<Rightarrow> [] | Some z \<Rightarrow> ''&availability-zone='' @ QueryEscape z)\<rparr>\<rparr>]
         \<and> decimal_value (Itoa l) = sint l \<and> decimal_value (Itoa off) = sint off"
  using assms by (simp add: List_sent Encode_paged decimal_value_Itoa)

theorem List_limit_offset_literal_witness:
  "map (\<lambda>r. RawQuery (Url r))
     (sent (snd (List short_page_server decode_example start ()
                   \<lparr>Limit = Some (- 1), Offset = Some (- 1), Sort = None, AvailabilityZone = None\<rparr>)))
     = [''_limit=-1&_offset=-1'']"
proof -
  have a: "newRequest short_page_server () MethodGet ''/v1/images'' None
             = Inr \<lparr>Method = ''GET'',
                    Url = \<lparr>Scheme = ''https'', Host = ''api.example.test'',
                           Path = ''/compute/v1/images'', RawQuery = []\<rparr>,
                    Ctx = (), Body = None\<rparr>"
    by (simp add: newRequest_def NewRequest_def short_page_server_def MethodGet_def
        DefaultBasePath_def example_base_def)
  have m: "Itoa (- 1) = ''-1''"
    by (simp add: Itoa_def digits.simps digit_char_def)
  show ?thesis
    using List_limit_offset_literal [OF a, where decode = decode_example and w = start
        and l = "- 1" and off = "- 1" and srt = None and az = None]
    by (simp add: start_def m)
qed

lemma List_limit_offset_one:
  "map (\<lambda>r. RawQuery (Url r))
     (sent (snd (List short_page_server decode_example start ()
                   \<lparr>Limit = Some 1, Offset = Some 1, Sort = None, AvailabilityZone = None\<rparr>)))
     = [''_limit=1&_offset=1'']"
  by (simp add: List_def newRequest_def NewRequest_def short_page_server_def Do_def Encode_paged
      Query_def parse_segment_def start_def Itoa_def digits.simps digit_char_def
      decode_example_def Let_def)

text \<open>
  C4. When the server answers with status 200 and an empty or absent body, List returns a
  nil result and a DecodingError, although the status is a success.
\<close>

theorem List_empty_body_is_DecodingError:
  assumes "newRequest cfg ctx MethodGet ''/v1/images'' None = Inr req"
    and "\<forall>r. fst (HTTPClient cfg (server w) r) = Inr resp"
    and "StatusCode resp = 200"
    and "RespBody resp = None \<or> RespBody resp = Some []"
  shows "fst (List cfg decode w ctx opts) = (None, Some (DecodingError []))"
proof -
  let ?r = "req\<lparr>Url := (Url req)\<lparr>RawQuery := Encode (List_query (Query (Url req)) opts)\<rparr>\<rparr>"
  from assms(2) have "fst (HTTPClient cfg (server w) ?r) = Inr resp" by blast
  then obtain s' where "HTTPClient cfg (server w) ?r = (Inr resp, s')"
    by (cases "HTTPClient cfg (server w) ?r") simp
  then show ?thesis
    using assms(1,3,4) by (auto simp: List_def Do_def Let_def)
qed

theorem List_empty_body_is_DecodingError_witness:
  "fst (List empty_body_server decode_example start ()
          \<lparr>Limit = None, Offset = None, Sort = None, AvailabilityZone = None\<rparr>)
     = (None, Some (DecodingError []))"
proof -
  have a: "newRequest empty_body_server () MethodGet ''/v1/images'' None
             = Inr \<lparr>Method = ''GET'', Url = example_base\<lparr>Path := ''/compute/v1/images''\<rparr>,
                    Ctx = (), Body = None\<rparr>"
    by (simp add: newRequest_def NewRequest_def empty_body_server_def MethodGet_def
        DefaultBasePath_def example_base_def)
  have b: "\<forall>r. fst (HTTPClient empty_body_server (server start) r)
             = Inr \<lparr>StatusCode = 200, RespBody = Some []\<rparr>"
    by (simp add: empty_body_server_def)
  show ?thesis
    using List_empty_body_is_DecodingError [OF a b, where decode = decode_example] by simp
qed

section \<open>Theorems: custom images\<close>

lemma decode_scenario: "decode_id_example scenario_body = Some \<lparr>IDResponse.ID = scenario_id\<rparr>"
  by (simp add: decode_id_example_def scenario_body_def scenario_id_def)

text \<open>
  C8. When the server answers the create request with a 2xx status and a body that
  decodes to a struct with an id, Create returns that id and a nil error. In the concrete
  scenario (the test-image request, status 200, body
  \<open>{"id": "8cf5c6d9-d5c5-4af9-bd1b-c17d032dc761"}\<close>) it returns exactly that id.
\<close>

theorem Create_returns_decoded_id:
  assumes "newRequest cfg ctx MethodPost ''/v1/images/custom'' (Some createReq) = Inr req"
    and "fst (HTTPClient cfg (server w) req) = Inr resp"
    and "200 \<le> StatusCode resp \<and> StatusCode resp < 300"
    and "RespBody resp = Some body" and "body \<noteq> []"
    and "decode body = Some res"
  shows "fst (Create cfg decode w ctx createReq) = (IDResponse.ID res, None)"
  using assms
  by (auto simp: Create_def ExecuteSimpleRequestWithRespBody_def Do_def
      split: prod.splits sum.splits option.splits)

theorem Create_returns_decoded_id_witness:
  "fst (Create create_server decode_id_example start () scenario_request)
     = (''8cf5c6d9-d5c5-4af9-bd1b-c17d032dc761'', None)"
proof -
  have a: "newRequest create_server () MethodPost ''/v1/images/custom'' (Some scenario_request)
             = Inr \<lparr>Method = ''POST'',
                    Url = \<lparr>Scheme = ''https'', Host = ''api.example.test'',
                           Path = ''/compute/v1/images/custom'', RawQuery = []\<rparr>,
                    Ctx = (), Body = Some scenario_request\<rparr>"
    by (simp add: newRequest_def NewRequest_def create_server_def MethodPost_def
        DefaultBasePath_def example_base_def)
  have b: "fst (HTTPClient create_server (server start)
             \<lparr>Method = ''POST'',
              Url = \<lparr>Scheme = ''https'', Host = ''api.example.test'',
                     Path = ''/compute/v1/images/custom'', RawQuery = []\<rparr>,
              Ctx = (), Body = Some scenario_request\<rparr>)
             = Inr \<lparr>StatusCode = 200, RespBody = Some scenario_body\<rparr>"
    by (simp add: create_server_def)
  have c: "200 \<le> StatusCode \<lparr>StatusCode = 200, RespBody = Some scenario_body\<rparr>
           \<and> StatusCode \<lparr>StatusCode = 200, RespBody = Some scenario_body\<rparr> < 300"
    by simp
  have d: "RespBody \<lparr>StatusCode = 200, RespBody = Some scenario_body\<rparr> = Some scenario_body"
    by simp
  have e: "scenario_body \<noteq> []"
    by (simp add: scenario_body_def)
  show ?thesis
    using Create_returns_decoded_id
      [where cfg = create_server and decode = decode_id_example and w = start and ctx = "()"
         and createReq = scenario_request and body = scenario_body
         and res = "\<lparr>IDResponse.ID = scenario_id\<rparr>", OF a b c d e decode_scenario]
    by (simp add: scenario_id_def)
qed

text \<open>
  C10. Whenever Create returns a non-nil error, the id it returns is the empty string.
\<close>

theorem Create_error_gives_empty_id:
  "snd (fst (Create cfg decode w ctx createReq)) \<noteq> None
   \<longrightarrow> fst (fst (Create cfg decode w ctx createReq)) = []"
  by (auto simp: Create_def split: prod.splits sum.splits)

theorem Create_error_gives_empty_id_witness:
  "fst (Create conflict_server decode_id_example start () scenario_request)
     = ([], Some (ConflictError ''duplicate name''))"
proof -
  have "snd (fst (Create conflict_server decode_id_example start () scenario_request))
          = Some (ConflictError ''duplicate name'')"
    by (simp add: Create_def ExecuteSimpleRequestWithRespBody_def newRequest_def NewRequest_def
        conflict_server_def Do_def error_of_status_def)
  then show ?thesis
    using Create_error_gives_empty_id
      [where cfg = conflict_server and decode = decode_id_example and w = start and ctx = "()"
         and createReq = scenario_request]
    by (simp add: prod_eq_iff)
qed

end
